theory Spec2Isabelle
  imports Complex_Main "HOL-Library.Multiset"
begin

section \<open>Data model of \<open>ScreenTimeTracker\<close>\<close>

subsection \<open>Python dictionaries\<close>

text \<open>
  A Python \<open>dict\<close> keeps its keys in insertion order, and \<open>get_top_apps\<close> depends on
  that order, so a dictionary is an association list: the keys in insertion order, each
  key at most once. Seconds are \<open>time.time()\<close> differences; they are modelled as real
  numbers (rounding of floating point is outside the model).
\<close>

type_synonym usage = "(string \<times> real) list"
type_synonym daily = "(string \<times> usage) list"

text \<open>\<open>d[k] = v\<close>: an existing key keeps its position, a new key goes to the end.\<close>

fun dict_set :: "('k \<times> 'v) list \<Rightarrow> 'k \<Rightarrow> 'v \<Rightarrow> ('k \<times> 'v) list" where
  "dict_set [] k v = [(k, v)]"
| "dict_set ((k', v') # kvs) k v =
     (if k' = k then (k', v) # kvs else (k', v') # dict_set kvs k v)"

text \<open>
  \<open>d[k]\<close> on a \<open>defaultdict\<close> whose factory returns \<open>dflt\<close>: a missing key is
  inserted with the default, and the default is returned. The dictionary after the
  read is part of the result.
\<close>

definition dd_getitem :: "'v \<Rightarrow> ('k \<times> 'v) list \<Rightarrow> 'k \<Rightarrow> 'v \<times> ('k \<times> 'v) list" where
  "dd_getitem dflt d k =
     (case map_of d k of
        Some v \<Rightarrow> (v, d)
      | None \<Rightarrow> (dflt, dict_set d k dflt))"

text \<open>\<open>d[k] += x\<close> on a \<open>defaultdict(int)\<close>: read (inserting \<open>0\<close>), add, store.\<close>

definition dd_iadd :: "usage \<Rightarrow> string \<Rightarrow> real \<Rightarrow> usage" where
  "dd_iadd d k x = (case dd_getitem 0 d k of (v, d') \<Rightarrow> dict_set d' k (v + x))"

text \<open>
  \<open>D[date][k] += x\<close> on a \<open>defaultdict(lambda: defaultdict(int))\<close>: the outer read
  creates the date when it is missing; the inner dictionary is updated in place.
\<close>

definition daily_iadd :: "daily \<Rightarrow> string \<Rightarrow> string \<Rightarrow> real \<Rightarrow> daily" where
  "daily_iadd D date k x =
     (case dd_getitem [] D date of (inner, D') \<Rightarrow> dict_set D' date (dd_iadd inner k x))"

text \<open>The seconds a reader sees for a key: the stored value, \<open>0\<close> when there is none.\<close>

definition usage_of :: "usage \<Rightarrow> string \<Rightarrow> real" where
  "usage_of d k = (case map_of d k of Some v \<Rightarrow> v | None \<Rightarrow> 0)"

definition daily_of :: "daily \<Rightarrow> string \<Rightarrow> string \<Rightarrow> real" where
  "daily_of D date k = (case map_of D date of Some inner \<Rightarrow> usage_of inner k | None \<Rightarrow> 0)"

subsection \<open>The tracker and its environment\<close>

record tracker =
  data_file :: string
  app_usage :: usage
  daily_usage :: daily
  is_tracking :: bool
  current_window :: "string option"
  last_check_time :: real

text \<open>
  What one call of \<open>update_usage\<close> reads from its environment: \<open>time.time()\<close>, the
  application name of \<open>get_active_window_info()\<close> (\<open>None\<close> when there is no foreground
  window or the lookup failed) and \<open>datetime.now().strftime("%Y-%m-%d")\<close>.
\<close>

record tick =
  tick_time :: real
  tick_app :: "string option"
  tick_today :: string

subsection \<open>The persistent store\<close>

datatype py_error = OSError | JSONDecodeError | AttributeError | TypeError

text \<open>
  A value found under a key of the stored document: the key is missing, or it holds a
  value the loader can build its dictionary from, or a value on which the loader raises.
\<close>

datatype 'a field = Missing | Usable 'a | Unusable

text \<open>
  A stored JSON object, as \<open>load_data\<close> sees it. In \<open>daily_usage\<close> every date holds a
  mapping (\<open>Some\<close>) or a value that \<open>defaultdict(int, apps)\<close> rejects (\<open>None\<close>).
  \<open>json.dump\<close> followed by \<open>json.load\<close> returns equal dictionaries with the keys in the
  same order; the document stands for the text between the two.
\<close>

record document =
  doc_app_usage :: "usage field"
  doc_daily_usage :: "(string \<times> usage option) list field"

text \<open>
  The content of a file: text that \<open>json.load\<close> rejects, JSON whose top level is not
  an object (so that \<open>data.get\<close> raises), or a JSON object.
\<close>

datatype file_content = NotJson | NonObject | Document document

record filesystem =
  files :: "string \<Rightarrow> file_content option"
  writable :: bool

section \<open>Operations\<close>

definition start_tracking :: "real \<Rightarrow> tracker \<Rightarrow> tracker" where
  "start_tracking now t = t\<lparr>is_tracking := True, last_check_time := now\<rparr>"

definition update_usage :: "tick \<Rightarrow> tracker \<Rightarrow> tracker" where
  "update_usage tk t =
     (if \<not> is_tracking t then t
      else
        let current_time = tick_time tk;
            time_diff = current_time - last_check_time t;
            t' = (case tick_app tk of
                    None \<Rightarrow> t
                  | Some app_name \<Rightarrow>
                      if app_name \<noteq> [] \<and> time_diff < 5
                      then t\<lparr>app_usage := dd_iadd (app_usage t) app_name time_diff,
                             daily_usage :=
                               daily_iadd (daily_usage t) (tick_today tk) app_name time_diff\<rparr>
                      else t)
        in t'\<lparr>last_check_time := current_time\<rparr>)"

text \<open>The sampling loop: one \<open>update_usage\<close> per tick, in order.\<close>

fun run :: "tick list \<Rightarrow> tracker \<Rightarrow> tracker" where
  "run [] t = t"
| "run (tk # tks) t = run tks (update_usage tk t)"

text \<open>
  \<open>sorted(xs, key=key, reverse=True)\<close>: the list is reversed, sorted by a stable
  ascending sort and reversed again, so that equal keys keep their original order.
\<close>

definition py_sorted_reverse :: "('a \<Rightarrow> 'k::linorder) \<Rightarrow> 'a list \<Rightarrow> 'a list" where
  "py_sorted_reverse key xs = rev (sort_key key (rev xs))"

text \<open>\<open>xs[:n]\<close>: a negative \<open>n\<close> counts from the end.\<close>

definition py_slice_to :: "'a list \<Rightarrow> int \<Rightarrow> 'a list" where
  "py_slice_to xs n =
     (if 0 \<le> n then take (nat n) xs else take (nat (int (length xs) + n)) xs)"

text \<open>The queries return their value and the tracker as the call leaves it.\<close>

definition get_top_apps :: "int \<Rightarrow> tracker \<Rightarrow> (string \<times> real) list \<times> tracker" where
  "get_top_apps limit t =
     (let sorted_apps = py_sorted_reverse snd (app_usage t)
      in (py_slice_to sorted_apps limit, t))"

text \<open>
  \<open>get_daily_total(date)\<close>; \<open>today\<close> is what \<open>datetime.now().strftime\<close> gives when
  \<open>date\<close> is \<open>None\<close>. The source subscripts the \<open>defaultdict\<close>.
\<close>

definition get_daily_total :: "string option \<Rightarrow> string \<Rightarrow> tracker \<Rightarrow> real \<times> tracker" where
  "get_daily_total date today t =
     (let date' = (case date of None \<Rightarrow> today | Some d \<Rightarrow> d)
      in case dd_getitem [] (daily_usage t) date' of
           (apps, D') \<Rightarrow> (sum_list (map snd apps), t\<lparr>daily_usage := D'\<rparr>))"

text \<open>
  The methods that touch the file return the exception that reaches the caller
  (\<open>None\<close> when the call returns normally) with the state they leave behind.
  \<open>save_data\<close> has no handler: a failing \<open>open\<close> propagates.
\<close>

definition save_data :: "tracker \<Rightarrow> filesystem \<Rightarrow> py_error option \<times> filesystem" where
  "save_data t fs =
     (let data = \<lparr>doc_app_usage = Usable (app_usage t),
                  doc_daily_usage =
                    Usable (map (\<lambda>(date, apps). (date, Some apps)) (daily_usage t))\<rparr>
      in if writable fs
         then (None, fs\<lparr>files := (files fs)(data_file t \<mapsto> Document data)\<rparr>)
         else (Some OSError, fs))"

definition stop_tracking ::
  "tracker \<Rightarrow> filesystem \<Rightarrow> py_error option \<times> tracker \<times> filesystem" where
  "stop_tracking t fs =
     (let t' = t\<lparr>is_tracking := False\<rparr>
      in case save_data t' fs of (e, fs') \<Rightarrow> (e, t', fs'))"

text \<open>\<open>data.get(key, {})\<close>, then the dictionary built from it; \<open>None\<close> when that raises.\<close>

fun field_or :: "'a \<Rightarrow> 'a field \<Rightarrow> 'a option" where
  "field_or dflt Missing = Some dflt"
| "field_or dflt (Usable x) = Some x"
| "field_or dflt Unusable = None"

text \<open>
  The loop \<open>for date, apps in ...items(): self.daily_usage[date] = defaultdict(int, apps)\<close>.
  It stops at the first date whose value is rejected, keeping what it has stored so far.
\<close>

fun load_daily :: "(string \<times> usage option) list \<Rightarrow> daily \<Rightarrow> py_error option \<times> daily" where
  "load_daily [] D = (None, D)"
| "load_daily ((date, None) # rest) D = (Some TypeError, D)"
| "load_daily ((date, Some apps) # rest) D = load_daily rest (dict_set D date apps)"

text \<open>The body of the \<open>try\<close> block: the exception it raises, and the tracker at that point.\<close>

definition load_body :: "file_content \<Rightarrow> tracker \<Rightarrow> py_error option \<times> tracker" where
  "load_body f t =
     (case f of
        NotJson \<Rightarrow> (Some JSONDecodeError, t)
      | NonObject \<Rightarrow> (Some AttributeError, t)
      | Document data \<Rightarrow>
          (case field_or [] (doc_app_usage data) of
             None \<Rightarrow> (Some TypeError, t)
           | Some apps \<Rightarrow>
               let t1 = t\<lparr>app_usage := apps\<rparr>;
                   t2 = t1\<lparr>daily_usage := []\<rparr>
               in (case field_or [] (doc_daily_usage data) of
                     None \<Rightarrow> (Some AttributeError, t2)
                   | Some items \<Rightarrow>
                       (case load_daily items (daily_usage t2) of
                          (e, D) \<Rightarrow> (e, t2\<lparr>daily_usage := D\<rparr>)))))"

text \<open>
  \<open>load_data\<close>: nothing happens when the file does not exist; otherwise the body runs
  under \<open>except: pass\<close>, so whatever it raises is dropped and the call returns normally.
\<close>

definition load_data :: "filesystem \<Rightarrow> tracker \<Rightarrow> py_error option \<times> tracker" where
  "load_data fs t =
     (case files fs (data_file t) of
        None \<Rightarrow> (None, t)
      | Some f \<Rightarrow> (None, snd (load_body f t)))"

text \<open>\<open>ScreenTimeTracker()\<close>; \<open>now\<close> is the \<open>time.time()\<close> of the constructor.\<close>

definition init :: "real \<Rightarrow> filesystem \<Rightarrow> py_error option \<times> tracker" where
  "init now fs =
     load_data fs
       \<lparr>data_file = ''screen_time_data.json'', app_usage = [], daily_usage = [],
        is_tracking = False, current_window = None, last_check_time = now\<rparr>"

subsection \<open>The specification's sum of attributed time\<close>

text \<open>
  Following the specification's words: the sum of the elapsed values of the ticks that
  carry the application \<open>a\<close> and are not rejected by the 5-second guard. The elapsed
  value of a tick is its time minus the time of the tick before it (\<open>prev\<close> for the
  first one).
\<close>

fun spec_attributed_sum :: "string \<Rightarrow> real \<Rightarrow> tick list \<Rightarrow> real" where
  "spec_attributed_sum a prev [] = 0"
| "spec_attributed_sum a prev (tk # tks) =
     (if tick_app tk = Some a \<and> tick_time tk - prev < 5 then tick_time tk - prev else 0)
     + spec_attributed_sum a (tick_time tk) tks"

subsection \<open>Example states\<close>

definition example_tracker :: tracker where
  "example_tracker =
     \<lparr>data_file = ''screen_time_data.json'',
      app_usage = [(''code.exe'', 3)],
      daily_usage = [(''2024-01-01'', [(''code.exe'', 3)])],
      is_tracking = True, current_window = None, last_check_time = 100\<rparr>"

definition example_ticks :: "tick list" where
  "example_ticks =
     [\<lparr>tick_time = 101, tick_app = Some ''code.exe'', tick_today = ''2024-01-01''\<rparr>,
      \<lparr>tick_time = 110, tick_app = Some ''code.exe'', tick_today = ''2024-01-01''\<rparr>,
      \<lparr>tick_time = 111, tick_app = None, tick_today = ''2024-01-01''\<rparr>,
      \<lparr>tick_time = 112, tick_app = Some ''chrome.exe'', tick_today = ''2024-01-01''\<rparr>,
      \<lparr>tick_time = 113, tick_app = Some ''code.exe'', tick_today = ''2024-01-02''\<rparr>]"

definition example_fs :: "file_content option \<Rightarrow> filesystem" where
  "example_fs content =
     \<lparr>files = (\<lambda>path. if path = ''screen_time_data.json'' then content else None),
      writable = True\<rparr>"

section \<open>Attribution\<close>

lemma map_of_dict_set: "map_of (dict_set d k v) = (map_of d)(k \<mapsto> v)"
  by (induction d) (auto simp: fun_eq_iff)

lemma usage_of_dd_iadd:
  "usage_of (dd_iadd d k x) j = usage_of d j + (if j = k then x else 0)"
  by (simp add: usage_of_def dd_iadd_def dd_getitem_def map_of_dict_set split: option.splits)

lemma daily_of_daily_iadd:
  "daily_of (daily_iadd D date k x) dt j =
     daily_of D dt j + (if dt = date \<and> j = k then x else 0)"
  by (simp add: daily_of_def daily_iadd_def dd_getitem_def map_of_dict_set usage_of_dd_iadd
      split: option.splits)
    (simp add: usage_of_def)

lemma update_usage_tracking: "is_tracking (update_usage tk t) = is_tracking t"
  by (simp add: update_usage_def Let_def split: option.splits)

lemma update_usage_last:
  "is_tracking t \<Longrightarrow> last_check_time (update_usage tk t) = tick_time tk"
  by (simp add: update_usage_def Let_def split: option.splits)

lemma update_usage_idle: "\<not> is_tracking t \<Longrightarrow> update_usage tk t = t"
  by (simp add: update_usage_def)

lemma usage_of_update_usage:
  "is_tracking t \<Longrightarrow>
   usage_of (app_usage (update_usage tk t)) a =
     usage_of (app_usage t) a +
       (if tick_app tk = Some a \<and> a \<noteq> [] \<and> tick_time tk - last_check_time t < 5
        then tick_time tk - last_check_time t else 0)"
  by (auto simp: update_usage_def Let_def usage_of_dd_iadd split: option.splits)

text \<open>
  C1. For every finite sequence of ticks processed while tracking is enabled, the final
  lifetime usage of an application is what it was before the run plus the sum of the
  elapsed values of exactly the ticks attributed to it: ticks rejected by the 5-second
  guard and ticks without an application add nothing, no elapsed value is counted twice
  and none is lost. From an empty \<open>app_usage\<close> the final value is that sum. An
  application name is a non-empty string: the source's test \<open>if app_name\<close> treats the
  empty name like \<open>None\<close>.
\<close>

theorem run_lifetime_usage_sum:
  assumes "is_tracking t" and "a \<noteq> []"
  shows "usage_of (app_usage (run ticks t)) a =
           usage_of (app_usage t) a + spec_attributed_sum a (last_check_time t) ticks"
  using assms(1)
proof (induction ticks arbitrary: t)
  case Nil
  then show ?case by simp
next
  case (Cons tk tks)
  have "usage_of (app_usage (run (tk # tks) t)) a =
          usage_of (app_usage (update_usage tk t)) a
          + spec_attributed_sum a (last_check_time (update_usage tk t)) tks"
    using Cons.IH [of "update_usage tk t"] Cons.prems by (simp add: update_usage_tracking)
  then show ?case
    using Cons.prems assms(2) by (simp add: usage_of_update_usage update_usage_last)
qed

theorem run_lifetime_usage_sum_witness:
  "is_tracking example_tracker \<and> ''code.exe'' \<noteq> []
   \<and> spec_attributed_sum ''code.exe'' 100 example_ticks = 2
   \<and> usage_of (app_usage (run example_ticks example_tracker)) ''code.exe'' = 3 + 2"
proof -
  have h: "is_tracking example_tracker" "''code.exe'' \<noteq> []"
    by (simp_all add: example_tracker_def)
  have s: "spec_attributed_sum ''code.exe'' 100 example_ticks = 2"
    by (simp add: example_ticks_def)
  have "usage_of (app_usage example_tracker) ''code.exe'' = 3"
       "last_check_time example_tracker = 100"
    by (simp_all add: example_tracker_def usage_of_def)
  then show ?thesis
    using h s run_lifetime_usage_sum [OF h, of example_ticks] by simp
qed

text \<open>
  C2. A tick whose elapsed time is at least 5 seconds leaves \<open>app_usage\<close> and
  \<open>daily_usage\<close> unchanged, whatever application it carries. The boundary is strict: a
  tick that carries an application (a non-empty name, as in C1) and whose elapsed time
  is below 5 seconds is accepted while tracking is on, and its elapsed time is added to
  the application in both mappings.
\<close>

theorem update_usage_threshold:
  "(5 \<le> tick_time tk - last_check_time t \<longrightarrow>
      app_usage (update_usage tk t) = app_usage t
    \<and> daily_usage (update_usage tk t) = daily_usage t)
   \<and> (is_tracking t \<and> tick_app tk = Some a \<and> a \<noteq> []
        \<and> tick_time tk - last_check_time t < 5 \<longrightarrow>
      app_usage (update_usage tk t) =
        dd_iadd (app_usage t) a (tick_time tk - last_check_time t)
    \<and> daily_usage (update_usage tk t) =
        daily_iadd (daily_usage t) (tick_today tk) a (tick_time tk - last_check_time t)
    \<and> usage_of (app_usage (update_usage tk t)) a =
        usage_of (app_usage t) a + (tick_time tk - last_check_time t)
    \<and> daily_of (daily_usage (update_usage tk t)) (tick_today tk) a =
        daily_of (daily_usage t) (tick_today tk) a + (tick_time tk - last_check_time t))"
  by (auto simp: update_usage_def Let_def usage_of_dd_iadd daily_of_daily_iadd
      split: option.splits)

text \<open>The boundary: an elapsed time of exactly 5 is rejected, 4.999 is attributed.\<close>

theorem update_usage_threshold_witness:
  "app_usage (update_usage
       \<lparr>tick_time = 105, tick_app = Some ''code.exe'', tick_today = ''2024-01-01''\<rparr>
       example_tracker) = app_usage example_tracker
   \<and> daily_usage (update_usage
       \<lparr>tick_time = 105, tick_app = Some ''code.exe'', tick_today = ''2024-01-01''\<rparr>
       example_tracker) = daily_usage example_tracker
   \<and> usage_of (app_usage (update_usage
       \<lparr>tick_time = 104.999, tick_app = Some ''code.exe'', tick_today = ''2024-01-01''\<rparr>
       example_tracker)) ''code.exe'' = 7.999
   \<and> daily_of (daily_usage (update_usage
       \<lparr>tick_time = 104.999, tick_app = Some ''code.exe'', tick_today = ''2024-01-01''\<rparr>
       example_tracker)) ''2024-01-01'' ''code.exe'' = 7.999"
proof -
  have e: "last_check_time example_tracker = 100" "is_tracking example_tracker"
    "usage_of (app_usage example_tracker) ''code.exe'' = 3"
    "daily_of (daily_usage example_tracker) ''2024-01-01'' ''code.exe'' = 3"
    by (simp_all add: example_tracker_def usage_of_def daily_of_def)
  show ?thesis
    using e
      update_usage_threshold
        [of "\<lparr>tick_time = 105, tick_app = Some ''code.exe'', tick_today = ''2024-01-01''\<rparr>"
            example_tracker "''code.exe''"]
      update_usage_threshold
        [of "\<lparr>tick_time = 104.999, tick_app = Some ''code.exe'',
              tick_today = ''2024-01-01''\<rparr>"
            example_tracker "''code.exe''"]
    by (simp add: usage_of_dd_iadd daily_of_daily_iadd)
qed

text \<open>
  C3. A tick whose observed application is \<open>None\<close> leaves \<open>app_usage\<close> and
  \<open>daily_usage\<close> unchanged, whatever the elapsed time of the tick is.
\<close>

theorem update_usage_no_app:
  assumes "tick_app tk = None"
  shows "app_usage (update_usage tk t) = app_usage t
       \<and> daily_usage (update_usage tk t) = daily_usage t"
  using assms by (simp add: update_usage_def Let_def)

theorem update_usage_no_app_witness:
  "tick_app \<lparr>tick_time = 250, tick_app = None, tick_today = ''2024-01-02''\<rparr> = None
   \<and> app_usage (update_usage \<lparr>tick_time = 250, tick_app = None, tick_today = ''2024-01-02''\<rparr>
        example_tracker) = [(''code.exe'', 3)]
   \<and> daily_usage (update_usage \<lparr>tick_time = 250, tick_app = None, tick_today = ''2024-01-02''\<rparr>
        example_tracker) = [(''2024-01-01'', [(''code.exe'', 3)])]"
  using update_usage_no_app
    [of "\<lparr>tick_time = 250, tick_app = None, tick_today = ''2024-01-02''\<rparr>" example_tracker]
  by (simp add: example_tracker_def)

text \<open>
  C4. One tick updates \<open>app_usage\<close> and \<open>daily_usage\<close> together: after
  \<open>update_usage\<close> either neither mapping has changed, or the tick carries an
  application and both mappings have received the same increment, the elapsed time of
  the tick, for that application (in \<open>daily_usage\<close> under today's date), with every
  other entry as it was. No tick changes only one of the two.
\<close>

theorem update_usage_atomic:
  "(app_usage (update_usage tk t) = app_usage t
      \<and> daily_usage (update_usage tk t) = daily_usage t)
   \<or> (\<exists>a. tick_app tk = Some a
        \<and> (\<forall>j. usage_of (app_usage (update_usage tk t)) j =
                 usage_of (app_usage t) j
                 + (if j = a then tick_time tk - last_check_time t else 0))
        \<and> (\<forall>d j. daily_of (daily_usage (update_usage tk t)) d j =
                 daily_of (daily_usage t) d j
                 + (if d = tick_today tk \<and> j = a
                    then tick_time tk - last_check_time t else 0)))"
  by (auto simp: update_usage_def Let_def usage_of_dd_iadd daily_of_daily_iadd
      split: option.splits)

section \<open>Monotonicity\<close>

text \<open>
  C5 as stated fails. \<open>time.time()\<close> follows the system clock, which can be set back.
  A tick whose time is
  before \<open>last_check_time\<close> has a negative elapsed time; it passes the test
  \<open>time_diff < 5\<close> and is subtracted: lifetime usage of \<open>code.exe\<close> drops from 3 to 1.
\<close>

theorem update_usage_backwards_clock_decreases:
  "usage_of (app_usage (update_usage
      \<lparr>tick_time = 98, tick_app = Some ''code.exe'', tick_today = ''2024-01-01''\<rparr>
      example_tracker)) ''code.exe''
   < usage_of (app_usage example_tracker) ''code.exe''"
  by (simp add: update_usage_def example_tracker_def usage_of_dd_iadd)

lemma run_append: "run (xs @ ys) t = run ys (run xs t)"
  by (induction xs arbitrary: t) simp_all

lemma run_idle: "\<not> is_tracking t \<Longrightarrow> run xs t = t"
  by (induction xs) (simp_all add: update_usage_idle)

lemma run_last_check_time:
  "is_tracking t \<Longrightarrow> xs \<noteq> [] \<Longrightarrow> last_check_time (run xs t) = tick_time (last xs)"
proof (induction xs arbitrary: t)
  case Nil
  then show ?case by simp
next
  case (Cons x xs)
  then show ?case
    by (cases xs) (simp_all add: update_usage_last update_usage_tracking)
qed

lemma run_forward_clock:
  "sorted (last_check_time t # map tick_time ys) \<Longrightarrow>
   usage_of (app_usage t) a \<le> usage_of (app_usage (run ys t)) a"
proof (induction ys arbitrary: t)
  case Nil
  then show ?case by simp
next
  case (Cons y ys)
  show ?case
  proof (cases "is_tracking t")
    case False
    then have "run (y # ys) t = t" by (rule run_idle)
    then show ?thesis by (simp only: order_refl)
  next
    case True
    from Cons.prems have le: "last_check_time t \<le> tick_time y"
      and rest: "sorted (tick_time y # map tick_time ys)" by simp_all
    have "usage_of (app_usage t) a \<le> usage_of (app_usage (update_usage y t)) a"
      using True le by (simp add: usage_of_update_usage)
    also have "\<dots> \<le> usage_of (app_usage (run ys (update_usage y t))) a"
      using Cons.IH [of "update_usage y t"] rest True by (simp add: update_usage_last)
    finally show ?thesis by simp
  qed
qed

text \<open>
  C5, amended. For every sequence of ticks whose times never go backwards (starting at
  \<open>last_check_time\<close>), the lifetime usage of every application is non-decreasing
  across the ticks: its value after any prefix of the run is at most its value after
  any longer prefix.
\<close>

theorem run_lifetime_usage_mono:
  assumes "sorted (last_check_time t # map tick_time (xs @ ys))"
  shows "usage_of (app_usage (run xs t)) a \<le> usage_of (app_usage (run (xs @ ys) t)) a"
proof -
  have "sorted (last_check_time (run xs t) # map tick_time ys)"
  proof (cases "is_tracking t \<and> xs \<noteq> []")
    case True
    then have "last_check_time (run xs t) = tick_time (last xs)"
      by (simp add: run_last_check_time)
    moreover have "\<forall>y\<in>set ys. tick_time (last xs) \<le> tick_time y"
      using assms True by (auto simp: sorted_append)
    moreover have "sorted (map tick_time ys)"
      using assms by (simp add: sorted_append)
    ultimately show ?thesis by simp
  next
    case False
    then have "run xs t = t" by (auto simp: run_idle)
    then show ?thesis using assms by (auto simp: sorted_append)
  qed
  then show ?thesis by (simp add: run_append run_forward_clock)
qed

theorem run_lifetime_usage_mono_witness:
  "sorted (last_check_time example_tracker # map tick_time (take 2 example_ticks @ drop 2 example_ticks))
   \<and> usage_of (app_usage (run (take 2 example_ticks) example_tracker)) ''code.exe''
     \<le> usage_of (app_usage (run example_ticks example_tracker)) ''code.exe''"
proof -
  have h: "sorted (last_check_time example_tracker
                    # map tick_time (take 2 example_ticks @ drop 2 example_ticks))"
    by (simp add: example_tracker_def example_ticks_def)
  show ?thesis
    using h run_lifetime_usage_mono [OF h, of "''code.exe''"] by simp
qed

section \<open>Queries\<close>

lemma get_top_apps_pure: "snd (get_top_apps limit t) = t"
  by (simp add: get_top_apps_def)

lemma get_daily_total_frame:
  "app_usage (snd (get_daily_total date today t)) = app_usage t
   \<and> is_tracking (snd (get_daily_total date today t)) = is_tracking t
   \<and> last_check_time (snd (get_daily_total date today t)) = last_check_time t"
  by (simp add: get_daily_total_def Let_def split: prod.splits)

text \<open>
  C6. \<open>get_top_apps\<close> is a pure read, and \<open>get_daily_total\<close> leaves \<open>app_usage\<close> and
  the flags alone, but \<open>get_daily_total\<close> on a date that has no entry subscripts the
  \<open>defaultdict\<close> and so inserts that date with an empty mapping: \<open>daily_usage\<close> is
  not what it was before the query.
\<close>

theorem get_daily_total_inserts_date:
  "get_daily_total (Some ''2024-03-05'') ''2024-01-02'' example_tracker =
     (0, example_tracker
          \<lparr>daily_usage := [(''2024-01-01'', [(''code.exe'', 3)]), (''2024-03-05'', [])]\<rparr>)
   \<and> daily_usage (snd (get_daily_total (Some ''2024-03-05'') ''2024-01-02'' example_tracker))
       \<noteq> daily_usage example_tracker"
  by (simp add: get_daily_total_def dd_getitem_def example_tracker_def)

lemma py_sorted_reverse_mset: "mset (py_sorted_reverse key xs) = mset xs"
  by (simp add: py_sorted_reverse_def)

lemma py_sorted_reverse_sorted:
  "sorted_wrt (\<lambda>p q. key q \<le> key p) (py_sorted_reverse key xs)"
proof -
  have "sorted (map key (sort_key key (rev xs)))" by simp
  then have "sorted_wrt (\<lambda>p q. key p \<le> key q) (sort_key key (rev xs))"
    by (simp only: sorted_wrt_map)
  then show ?thesis
    by (simp add: py_sorted_reverse_def sorted_wrt_rev)
qed

lemma py_sorted_reverse_stable:
  "filter (\<lambda>p. key p = v) (py_sorted_reverse key xs) = filter (\<lambda>p. key p = v) xs"
  by (simp add: py_sorted_reverse_def sort_key_stable flip: rev_filter)

text \<open>
  C7. For every tracker and every limit (a count, \<open>0 \<le> limit\<close>) \<open>get_top_apps\<close>
  returns the first \<open>limit\<close> entries of a list that holds exactly the
  \<open>(app, seconds)\<close> pairs of \<open>app_usage\<close>, is sorted by seconds descending, and keeps
  pairs with equal seconds in their insertion order; the result has at most \<open>limit\<close>
  entries. On \<open>{A:100, B:300, C:50, D:300}\<close>, with \<open>B\<close> inserted before \<open>D\<close>,
  \<open>get_top_apps(3)\<close> is \<open>[(B,300), (D,300), (A,100)]\<close>.
\<close>

theorem get_top_apps_sorted:
  "(0 \<le> limit \<longrightarrow>
      (\<exists>s. fst (get_top_apps limit t) = take (nat limit) s
          \<and> mset s = mset (app_usage t)
          \<and> sorted_wrt (\<lambda>p q. snd q \<le> snd p) s
          \<and> (\<forall>v. filter (\<lambda>p. snd p = v) s = filter (\<lambda>p. snd p = v) (app_usage t)))
      \<and> int (length (fst (get_top_apps limit t))) \<le> limit)
   \<and> (app_usage t = [(''A'', 100), (''B'', 300), (''C'', 50), (''D'', 300)] \<longrightarrow>
        fst (get_top_apps 3 t) = [(''B'', 300), (''D'', 300), (''A'', 100)])"
proof (intro conjI impI)
  assume "0 \<le> limit"
  then have "fst (get_top_apps limit t) = take (nat limit) (py_sorted_reverse snd (app_usage t))"
    by (simp add: get_top_apps_def py_slice_to_def)
  then show "\<exists>s. fst (get_top_apps limit t) = take (nat limit) s
          \<and> mset s = mset (app_usage t)
          \<and> sorted_wrt (\<lambda>p q. snd q \<le> snd p) s
          \<and> (\<forall>v. filter (\<lambda>p. snd p = v) s = filter (\<lambda>p. snd p = v) (app_usage t))"
    using py_sorted_reverse_mset [of snd "app_usage t"]
      py_sorted_reverse_sorted [of snd "app_usage t"]
      py_sorted_reverse_stable [of snd _ "app_usage t"]
    by blast
  show "int (length (fst (get_top_apps limit t))) \<le> limit"
    using \<open>0 \<le> limit\<close> by (simp add: get_top_apps_def py_slice_to_def)
next
  assume "app_usage t = [(''A'', 100), (''B'', 300), (''C'', 50), (''D'', 300)]"
  then show "fst (get_top_apps 3 t) = [(''B'', 300), (''D'', 300), (''A'', 100)]"
    by (simp add: get_top_apps_def py_slice_to_def py_sorted_reverse_def)
qed

theorem get_top_apps_sorted_witness:
  "(0::int) \<le> 3
   \<and> app_usage (example_tracker
        \<lparr>app_usage := [(''A'', 100), (''B'', 300), (''C'', 50), (''D'', 300)]\<rparr>)
       = [(''A'', 100), (''B'', 300), (''C'', 50), (''D'', 300)]
   \<and> fst (get_top_apps 3 (example_tracker
        \<lparr>app_usage := [(''A'', 100), (''B'', 300), (''C'', 50), (''D'', 300)]\<rparr>))
       = [(''B'', 300), (''D'', 300), (''A'', 100)]
   \<and> int (length (fst (get_top_apps 3 (example_tracker
        \<lparr>app_usage := [(''A'', 100), (''B'', 300), (''C'', 50), (''D'', 300)]\<rparr>)))) \<le> 3"
  using get_top_apps_sorted
    [of 3 "example_tracker
        \<lparr>app_usage := [(''A'', 100), (''B'', 300), (''C'', 50), (''D'', 300)]\<rparr>"]
  by simp

section \<open>Persistence\<close>

text \<open>
  The dates of \<open>daily_usage\<close> are the keys of a dictionary, so they are distinct;
  \<open>update_usage\<close> keeps them so.
\<close>

lemma dict_set_fresh: "k \<notin> fst ` set d \<Longrightarrow> dict_set d k v = d @ [(k, v)]"
  by (induction d) auto

lemma dict_set_keys:
  "map fst (dict_set d k v) =
     (if k \<in> set (map fst d) then map fst d else map fst d @ [k])"
  by (induction d) (force split: if_splits)+

lemma dict_set_distinct:
  "distinct (map fst d) \<Longrightarrow> distinct (map fst (dict_set d k v))"
  by (simp add: dict_set_keys)

lemma update_usage_distinct_dates:
  "distinct (map fst (daily_usage t)) \<Longrightarrow> distinct (map fst (daily_usage (update_usage tk t)))"
  by (simp add: update_usage_def Let_def daily_iadd_def dd_getitem_def dict_set_distinct
      split: option.splits)

lemma load_daily_usable:
  "distinct (map fst (D @ days)) \<Longrightarrow>
   load_daily (map (\<lambda>(date, apps). (date, Some apps)) days) D = (None, D @ days)"
proof (induction days arbitrary: D)
  case Nil
  then show ?case by simp
next
  case (Cons p days)
  obtain date apps where p: "p = (date, apps)" by (cases p)
  from Cons.prems p have fresh: "date \<notin> fst ` set D" by auto
  from Cons.prems p have "distinct (map fst ((D @ [(date, apps)]) @ days))" by simp
  then have "load_daily (map (\<lambda>(date, apps). (date, Some apps)) days) (D @ [(date, apps)])
             = (None, (D @ [(date, apps)]) @ days)"
    by (rule Cons.IH)
  then show ?case using p fresh by (simp add: dict_set_fresh)
qed

text \<open>
  C8. For every tracker state, \<open>save_data\<close> that succeeds, followed by the construction
  of a fresh tracker (whose constructor calls \<open>load_data\<close> on the same file), gives a
  tracker whose \<open>app_usage\<close> and \<open>daily_usage\<close> are identical to the ones saved:
  the same keys in the same order with the same values.
\<close>

theorem save_load_roundtrip:
  assumes "data_file t = ''screen_time_data.json''"
    and "distinct (map fst (daily_usage t))"
    and "save_data t fs = (None, fs')"
  shows "init now fs' =
           (None, \<lparr>data_file = ''screen_time_data.json'', app_usage = app_usage t,
                   daily_usage = daily_usage t, is_tracking = False,
                   current_window = None, last_check_time = now\<rparr>)"
proof -
  let ?data = "\<lparr>doc_app_usage = Usable (app_usage t),
                 doc_daily_usage =
                   Usable (map (\<lambda>(date, apps). (date, Some apps)) (daily_usage t))\<rparr>"
  let ?fresh = "\<lparr>data_file = ''screen_time_data.json'', app_usage = [], daily_usage = [],
        is_tracking = False, current_window = None, last_check_time = now\<rparr>"
  from assms(3) have fs': "fs' = fs\<lparr>files := (files fs)(data_file t \<mapsto> Document ?data)\<rparr>"
    by (simp add: save_data_def Let_def split: if_splits)
  have "files fs' (data_file ?fresh) = Some (Document ?data)"
    using assms(1) fs' by simp
  then have "load_data fs' ?fresh =
      (None, ?fresh\<lparr>app_usage := app_usage t, daily_usage := daily_usage t\<rparr>)"
    using assms(2) load_daily_usable [of "[]" "daily_usage t"]
    by (simp add: load_data_def load_body_def)
  then show ?thesis by (simp add: init_def)
qed

theorem save_load_roundtrip_witness:
  "data_file example_tracker = ''screen_time_data.json''
   \<and> distinct (map fst (daily_usage example_tracker))
   \<and> (\<exists>fs'. save_data example_tracker (example_fs None) = (None, fs')
        \<and> app_usage (snd (init 500 fs')) = [(''code.exe'', 3)]
        \<and> daily_usage (snd (init 500 fs')) = [(''2024-01-01'', [(''code.exe'', 3)])])"
proof -
  have h1: "data_file example_tracker = ''screen_time_data.json''"
    and h2: "distinct (map fst (daily_usage example_tracker))"
    by (simp_all add: example_tracker_def)
  obtain fs' where s: "save_data example_tracker (example_fs None) = (None, fs')"
    by (simp add: save_data_def example_fs_def)
  have "app_usage (snd (init 500 fs')) = app_usage example_tracker
      \<and> daily_usage (snd (init 500 fs')) = daily_usage example_tracker"
    using save_load_roundtrip [OF h1 h2 s, of 500] by simp
  then show ?thesis using h1 h2 s by (auto simp: example_tracker_def)
qed

text \<open>
  C9 as stated fails. \<open>load_data\<close> has one handler, \<open>except: pass\<close>: no failure of a
  load reaches the caller. Over a file that is not JSON the call returns normally.
\<close>

theorem load_data_swallows_error:
  "load_data (example_fs (Some NotJson)) example_tracker = (None, example_tracker)"
  by (simp add: load_data_def load_body_def example_fs_def example_tracker_def)

text \<open>
  C9, amended. For every tracker state, a load over a present store that is not JSON,
  or whose top level is not a JSON object, or whose \<open>app_usage\<close> value cannot be made
  into a dictionary, reports nothing to the caller (the exception is dropped and the
  call returns normally) and leaves the tracker, with its \<open>app_usage\<close> and
  \<open>daily_usage\<close>, exactly as it was.
\<close>

theorem load_data_malformed_unchanged:
  assumes "files fs (data_file t) = Some f"
    and "f = NotJson \<or> f = NonObject \<or> (\<exists>data. f = Document data \<and> doc_app_usage data = Unusable)"
  shows "load_data fs t = (None, t)"
  using assms by (auto simp: load_data_def load_body_def)

theorem load_data_malformed_unchanged_witness:
  "files (example_fs (Some NonObject)) (data_file example_tracker) = Some NonObject
   \<and> load_data (example_fs (Some NonObject)) example_tracker = (None, example_tracker)"
proof -
  have h: "files (example_fs (Some NonObject)) (data_file example_tracker) = Some NonObject"
    by (simp add: example_fs_def example_tracker_def)
  show ?thesis
    using h load_data_malformed_unchanged [OF h] by simp
qed

text \<open>
  A store that fails later is not covered by the statement above: the body has
  assigned \<open>app_usage\<close> and emptied \<open>daily_usage\<close> by the time \<open>daily_usage\<close> of
  the document is read.
\<close>

lemma load_data_partial_overwrite:
  "load_data
     (example_fs (Some (Document
        \<lparr>doc_app_usage = Usable [(''chrome.exe'', 7)], doc_daily_usage = Unusable\<rparr>)))
     example_tracker
   = (None, example_tracker\<lparr>app_usage := [(''chrome.exe'', 7)], daily_usage := []\<rparr>)"
  by (simp add: load_data_def load_body_def example_fs_def example_tracker_def)

text \<open>
  C10. For every tracker, also one whose mappings are non-empty, a load of a present,
  well-formed store replaces \<open>app_usage\<close> and \<open>daily_usage\<close> by the contents of the
  store (an absent key of the document counts as an empty mapping): nothing of the
  previous in-memory entries is kept or merged.
\<close>

theorem load_data_replaces:
  assumes "files fs (data_file t) = Some (Document data)"
    and "field_or [] (doc_app_usage data) = Some apps"
    and "field_or [] (doc_daily_usage data) = Some (map (\<lambda>(date, a). (date, Some a)) days)"
    and "distinct (map fst days)"
  shows "load_data fs t = (None, t\<lparr>app_usage := apps, daily_usage := days\<rparr>)"
  using assms load_daily_usable [of "[]" days]
  by (simp add: load_data_def load_body_def)

theorem load_data_replaces_witness:
  "load_data
     (example_fs (Some (Document
        \<lparr>doc_app_usage = Usable [(''chrome.exe'', 7)],
         doc_daily_usage = Usable [(''2023-12-31'', Some [(''chrome.exe'', 7)])]\<rparr>)))
     example_tracker
   = (None, example_tracker
        \<lparr>app_usage := [(''chrome.exe'', 7)],
         daily_usage := [(''2023-12-31'', [(''chrome.exe'', 7)])]\<rparr>)
   \<and> usage_of (app_usage example_tracker) ''code.exe'' = 3
   \<and> usage_of (app_usage (snd (load_data
     (example_fs (Some (Document
        \<lparr>doc_app_usage = Usable [(''chrome.exe'', 7)],
         doc_daily_usage = Usable [(''2023-12-31'', Some [(''chrome.exe'', 7)])]\<rparr>)))
     example_tracker))) ''code.exe'' = 0"
proof -
  let ?data = "\<lparr>doc_app_usage = Usable [(''chrome.exe'', 7)],
         doc_daily_usage = Usable [(''2023-12-31'', Some [(''chrome.exe'', 7)])]\<rparr>"
  have h1: "files (example_fs (Some (Document ?data))) (data_file example_tracker)
            = Some (Document ?data)"
    by (simp add: example_fs_def example_tracker_def)
  have h2: "field_or [] (doc_app_usage ?data) = Some [(''chrome.exe'', 7)]" by simp
  have h3: "field_or [] (doc_daily_usage ?data)
            = Some (map (\<lambda>(date, a). (date, Some a)) [(''2023-12-31'', [(''chrome.exe'', 7)])])"
    by simp
  have h4: "distinct (map fst [(''2023-12-31'', [(''chrome.exe'', 7::real)])])" by simp
  show ?thesis
    using load_data_replaces [OF h1 h2 h3 h4]
    by (simp add: usage_of_def) (simp add: example_tracker_def)
qed

end
